theory Spec2Isabelle
  imports Main "HOL-Library.Word"
begin

section \<open>JavaScript values, errors and promises\<close>

text \<open>
  A value that may be \<open>undefined\<close> or \<open>null\<close>.  The payload type \<open>'a\<close> stands for
  every other value; for the Grid view it is a list of repository records.
\<close>

datatype 'a js = Undefined | Null | Val 'a

text \<open>JavaScript truthiness of a value whose payload is an array: arrays, also the
  empty one, are truthy; \<open>undefined\<close> and \<open>null\<close> are falsy.\<close>

fun truthy :: "'a js \<Rightarrow> bool" where
  "truthy Undefined = False"
| "truthy Null = False"
| "truthy (Val v) = True"

datatype error = TypeError | SyntaxError | FetchError | URIError

text \<open>A promise as its outcome: it may stay pending for ever (the fetch has no timeout),
  be fulfilled with a value or be rejected with an error.\<close>

datatype 'a promise = Pending | Fulfilled 'a | Rejected error

text \<open>\<open>p.then(f)\<close> where the callback returns a plain value or throws.\<close>

fun then_value :: "'a promise \<Rightarrow> ('a \<Rightarrow> error + 'b) \<Rightarrow> 'b promise" where
  "then_value Pending f = Pending"
| "then_value (Rejected e) f = Rejected e"
| "then_value (Fulfilled v) f = (case f v of Inl e \<Rightarrow> Rejected e | Inr r \<Rightarrow> Fulfilled r)"

text \<open>\<open>p.then(f)\<close> where the callback returns a promise, which the result follows.\<close>

fun then_promise :: "'a promise \<Rightarrow> ('a \<Rightarrow> 'b promise) \<Rightarrow> 'b promise" where
  "then_promise Pending f = Pending"
| "then_promise (Rejected e) f = Rejected e"
| "then_promise (Fulfilled v) f = f v"

section \<open>Strings\<close>

text \<open>
  A JavaScript string is a sequence of 16-bit code units.  A character beyond the
  basic plane is a pair of surrogates, a high one (\<open>D800\<close> to \<open>DBFF\<close>) followed by a low
  one (\<open>DC00\<close> to \<open>DFFF\<close>); a surrogate outside such a pair is a lone surrogate.
  \<open>ascii\<close> gives the string of a literal written in ASCII.
\<close>

type_synonym unit16 = "16 word"

type_synonym jsstring = "unit16 list"

definition ascii :: "string \<Rightarrow> jsstring" where
  "ascii s = map of_char s"

definition is_high :: "unit16 \<Rightarrow> bool" where
  "is_high c = (0xD800 \<le> unat c \<and> unat c \<le> 0xDBFF)"

definition is_low :: "unit16 \<Rightarrow> bool" where
  "is_low c = (0xDC00 \<le> unat c \<and> unat c \<le> 0xDFFF)"

text \<open>A code unit that is not a surrogate.\<close>

definition plain :: "unit16 \<Rightarrow> bool" where
  "plain c = (\<not> is_high c \<and> \<not> is_low c)"

text \<open>No lone surrogate: every high surrogate is followed by a low one, and every low
  one follows a high one.\<close>

fun well_formed :: "jsstring \<Rightarrow> bool" where
  "well_formed [] = True"
| "well_formed [c] = (\<not> is_high c \<and> \<not> is_low c)"
| "well_formed (c # k # ks) =
     (if is_low c then False
      else if is_high c then is_low k \<and> well_formed ks
      else well_formed (k # ks))"

text \<open>\<open>s.split('/')\<close>: the pieces between the slashes; never the empty array.\<close>

fun split_slash :: "jsstring \<Rightarrow> jsstring list" where
  "split_slash [] = [[]]"
| "split_slash (c # cs) =
     (if c = 0x2F then [] # split_slash cs
      else (case split_slash cs of
              [] \<Rightarrow> [[c]]
            | s # ss \<Rightarrow> (c # s) # ss))"

text \<open>\<open>xs.pop()\<close>: the last element, \<open>undefined\<close> (here \<open>None\<close>) on the empty array.\<close>

definition pop :: "'a list \<Rightarrow> 'a option" where
  "pop xs = (if xs = [] then None else Some (last xs))"

section \<open>\<open>encodeURI\<close> and \<open>decodeURI\<close>\<close>

text \<open>
  The two built-in functions as the language standard defines them.  \<open>encodeURI\<close>
  leaves the characters of \<open>uriReserved\<close>, \<open>uriUnescaped\<close> and \<open>#\<close> alone and replaces
  every other character by the percent-escapes of the bytes of its UTF-8 encoding; it
  throws a \<open>URIError\<close> on a lone surrogate.
\<close>

definition uriReserved :: string where
  "uriReserved = '';/?:@&=+$,''"

definition uriAlpha :: string where
  "uriAlpha = ''abcdefghijklmnopqrstuvwxyzABCDEFGHIJKLMNOPQRSTUVWXYZ''"

definition decimalDigit :: string where
  "decimalDigit = ''0123456789''"

definition uriMark :: string where
  "uriMark = ''-_.!~*()'' @ [CHR 0x27]"

definition unescapedURISet :: jsstring where
  "unescapedURISet = ascii (uriReserved @ uriAlpha @ decimalDigit @ uriMark @ ''#'')"

definition reservedURISet :: jsstring where
  "reservedURISet = ascii (uriReserved @ ''#'')"

definition hexDigits :: string where
  "hexDigits = ''0123456789ABCDEF''"

text \<open>The bytes of the UTF-8 encoding of a code point.\<close>

definition utf8 :: "nat \<Rightarrow> nat list" where
  "utf8 v =
     (if v < 0x80 then [v]
      else if v < 0x800 then [0xC0 + v div 64, 0x80 + v mod 64]
      else if v < 0x10000 then [0xE0 + v div 4096, 0x80 + v div 64 mod 64, 0x80 + v mod 64]
      else [0xF0 + v div 262144, 0x80 + v div 4096 mod 64, 0x80 + v div 64 mod 64,
            0x80 + v mod 64])"

definition percent :: "nat \<Rightarrow> jsstring" where
  "percent b = ascii [CHR ''%'', hexDigits ! (b div 16 mod 16), hexDigits ! (b mod 16)]"

definition escapes :: "nat \<Rightarrow> jsstring" where
  "escapes v = concat (map percent (utf8 v))"

text \<open>The code point of a surrogate pair.\<close>

definition pair_value :: "unit16 \<Rightarrow> unit16 \<Rightarrow> nat" where
  "pair_value c k = (unat c - 0xD800) * 0x400 + (unat k - 0xDC00) + 0x10000"

fun encodeURI :: "jsstring \<Rightarrow> error + jsstring" where
  "encodeURI [] = Inr []"
| "encodeURI (c # cs) =
     (if c \<in> set unescapedURISet then
        (case encodeURI cs of Inl e \<Rightarrow> Inl e | Inr r \<Rightarrow> Inr (c # r))
      else if is_low c then Inl URIError
      else if \<not> is_high c then
        (case encodeURI cs of Inl e \<Rightarrow> Inl e | Inr r \<Rightarrow> Inr (escapes (unat c) @ r))
      else
        (case cs of
           [] \<Rightarrow> Inl URIError
         | k # ks \<Rightarrow>
             if \<not> is_low k then Inl URIError
             else (case encodeURI ks of
                     Inl e \<Rightarrow> Inl e
                   | Inr r \<Rightarrow> Inr (escapes (pair_value c k) @ r))))"

text \<open>
  \<open>decodeURI\<close> replaces every percent-escape, or run of escapes that is the UTF-8
  encoding of one character, by the character, except that an escape of a character of
  \<open>uriReserved\<close> or of \<open>#\<close> stays as it is written.  It throws a \<open>URIError\<close> on a \<open>%\<close>
  that two hexadecimal digits do not follow and on bytes that are not valid UTF-8.
\<close>

definition hexval :: "unit16 \<Rightarrow> nat option" where
  "hexval c =
     map_of (zip (ascii ''0123456789ABCDEFabcdef'')
                 [0, 1, 2, 3, 4, 5, 6, 7, 8, 9, 10, 11, 12, 13, 14, 15, 10, 11, 12, 13, 14, 15])
            c"

text \<open>The byte of an escape \<open>%XX\<close> at the head of the string, and the rest.\<close>

fun escape :: "jsstring \<Rightarrow> (nat \<times> jsstring) option" where
  "escape (p # h # l # rest) =
     (if p = 0x25 then
        (case hexval h of
           None \<Rightarrow> None
         | Some a \<Rightarrow> (case hexval l of None \<Rightarrow> None | Some b \<Rightarrow> Some (16 * a + b, rest)))
      else None)"
| "escape s = None"

text \<open>\<open>n\<close> escapes of continuation bytes (\<open>10xxxxxx\<close>) at the head of the string.\<close>

fun continuation :: "nat \<Rightarrow> jsstring \<Rightarrow> (nat list \<times> jsstring) option" where
  "continuation 0 s = Some ([], s)"
| "continuation (Suc n) s =
     (case escape s of
        None \<Rightarrow> None
      | Some (b, rest) \<Rightarrow>
          if b div 64 \<noteq> 2 then None
          else (case continuation n rest of
                  None \<Rightarrow> None
                | Some (bs, r) \<Rightarrow> Some (b # bs, r)))"

text \<open>The number of bytes a first byte of \<open>0x80\<close> or more announces: the number of its
  leading one bits, which must be 2, 3 or 4.\<close>

definition utf8_length :: "nat \<Rightarrow> nat option" where
  "utf8_length b =
     (if b < 0xC0 then None
      else if b < 0xE0 then Some 2
      else if b < 0xF0 then Some 3
      else if b < 0xF8 then Some 4
      else None)"

text \<open>The code point of a first byte and its continuation bytes, when they are the
  valid (shortest, not a surrogate, at most \<open>10FFFF\<close>) encoding of one.\<close>

fun utf8_value :: "nat \<Rightarrow> nat list \<Rightarrow> nat option" where
  "utf8_value b [b1] =
     (let v = (b mod 32) * 64 + b1 mod 64
      in if 0x80 \<le> v then Some v else None)"
| "utf8_value b [b1, b2] =
     (let v = (b mod 16) * 4096 + (b1 mod 64) * 64 + b2 mod 64
      in if 0x800 \<le> v \<and> \<not> (0xD800 \<le> v \<and> v \<le> 0xDFFF) then Some v else None)"
| "utf8_value b [b1, b2, b3] =
     (let v = (b mod 8) * 262144 + (b1 mod 64) * 4096 + (b2 mod 64) * 64 + b3 mod 64
      in if 0x10000 \<le> v \<and> v \<le> 0x10FFFF then Some v else None)"
| "utf8_value b bs = None"

text \<open>The code units of a code point.\<close>

definition units :: "nat \<Rightarrow> jsstring" where
  "units v =
     (if v < 0x10000 then [of_nat v]
      else [of_nat (0xD800 + (v - 0x10000) div 0x400),
            of_nat (0xDC00 + (v - 0x10000) mod 0x400)])"

text \<open>The character or characters at the head of the string, decoded, and the rest
  of the string.  A character of \<open>0x80\<close> or more is never reserved, so only the escape
  of a single byte can stay as it is written.\<close>

definition decode_head :: "unit16 \<Rightarrow> jsstring \<Rightarrow> error + (jsstring \<times> jsstring)" where
  "decode_head c cs =
     (if c \<noteq> 0x25 then Inr ([c], cs)
      else
        (case escape (c # cs) of
           None \<Rightarrow> Inl URIError
         | Some (b, rest) \<Rightarrow>
             if b < 0x80 then
               (if of_nat b \<in> set reservedURISet then Inr (take 3 (c # cs), rest)
                else Inr ([of_nat b], rest))
             else
               (case utf8_length b of
                  None \<Rightarrow> Inl URIError
                | Some n \<Rightarrow>
                    (case continuation (n - 1) rest of
                       None \<Rightarrow> Inl URIError
                     | Some (bs, rest') \<Rightarrow>
                         (case utf8_value b bs of
                            None \<Rightarrow> Inl URIError
                          | Some v \<Rightarrow> Inr (units v, rest'))))))"

function decodeURI :: "jsstring \<Rightarrow> error + jsstring" where
  "decodeURI [] = Inr []"
| "decodeURI (c # cs) =
     (case decode_head c cs of
        Inl e \<Rightarrow> Inl e
      | Inr (s, rest) \<Rightarrow>
          (case decodeURI rest of Inl e \<Rightarrow> Inl e | Inr r \<Rightarrow> Inr (s @ r)))"
  by pat_completeness auto
termination
proof (relation "measure length")
  show "wf (measure length)" by simp
next
  fix c :: unit16 and cs x s rest
  assume head: "decode_head c cs = Inr x" and x: "(s, rest) = x"
  have esc: "length r < length t" if "escape t = Some (b, r)" for t b r
    using that by (cases t rule: escape.cases) (auto split: if_splits option.splits)
  have cont: "length r \<le> length t" if "continuation n t = Some (bs, r)" for n t bs r
    using that
  proof (induction n arbitrary: t bs r)
    case 0
    then show ?case by simp
  next
    case (Suc n)
    then show ?case
      by (fastforce split: option.splits if_splits dest: esc)
  qed
  have "length rest \<le> length cs"
    using head x
    by (auto simp add: decode_head_def split: if_splits option.splits dest!: esc cont)
  then show "(rest, c # cs) \<in> measure length" by simp
qed

section \<open>The Data Loader (\<open>src/shared/api.js\<close>)\<close>

text \<open>
  The parsed JSON body of the response.  Reading a property of \<open>null\<close> throws; reading
  a property of any other value gives the property's value, or \<open>undefined\<close> when there is
  none (always so for booleans, numbers, strings and arrays, which have no \<open>items\<close>).
\<close>

datatype 'a jsonval = JNull | JScalar | JArray | JObject "string \<rightharpoonup> 'a js"

fun get_items :: "'a jsonval \<Rightarrow> error + 'a js" where
  "get_items JNull = Inl TypeError"
| "get_items JScalar = Inr Undefined"
| "get_items JArray = Inr Undefined"
| "get_items (JObject obj) =
     (case obj ''items'' of None \<Rightarrow> Inr Undefined | Some v \<Rightarrow> Inr v)"

text \<open>A response: what its \<open>json()\<close> method's promise settles to.\<close>

datatype 'a response = Response "'a jsonval promise"

fun json :: "'a response \<Rightarrow> 'a jsonval promise" where
  "json (Response p) = p"

text \<open>What a call of a loader that returned did: the URLs it requested, the errors it
  passed to \<open>console.warn\<close>, and the promise it returned.\<close>

record 'a outcome =
  requests :: "jsstring list"
  warnings :: "error list"
  result :: "'a promise"

definition url_prefix :: string where
  "url_prefix = ''https://api.github.com/search/repositories?q=stars:>1+language:''"

definition url_suffix :: string where
  "url_suffix = ''&sort=stars&order=desc&type=Repositories''"

text \<open>The default parameter \<open>language = 'all'\<close> applies to an absent (\<open>undefined\<close>)
  argument only.\<close>

definition language_term :: "jsstring option \<Rightarrow> jsstring" where
  "language_term language = (case language of None \<Rightarrow> ascii ''all'' | Some l \<Rightarrow> l)"

definition encodedURI :: "jsstring option \<Rightarrow> error + jsstring" where
  "encodedURI language =
     encodeURI (ascii url_prefix @ language_term language @ ascii url_suffix)"

text \<open>\<open>.catch((error) => { console.warn(error); return null })\<close>\<close>

fun catch_warn :: "'a js promise \<Rightarrow> error list \<times> 'a js promise" where
  "catch_warn Pending = ([], Pending)"
| "catch_warn (Fulfilled v) = ([], Fulfilled v)"
| "catch_warn (Rejected e) = ([e], Fulfilled Null)"

text \<open>\<open>encodeURI\<close> is called first, outside the promise chain: when it throws, the
  function throws (\<open>Inl\<close>) and returns no promise.\<close>

definition fetchPopularRepos ::
  "(jsstring \<Rightarrow> 'a response promise) \<Rightarrow> jsstring option \<Rightarrow> error + 'a js outcome" where
  "fetchPopularRepos fetch language =
     (case encodedURI language of
        Inl e \<Rightarrow> Inl e
      | Inr uri \<Rightarrow>
          (let p = then_value (then_promise (fetch uri) json) get_items;
               (w, r) = catch_warn p
           in Inr \<lparr>requests = [uri], warnings = w, result = r\<rparr>))"

section \<open>React elements\<close>

text \<open>
  What a \<open>render\<close> function returns: a tree of elements with their props, text children
  and number children.  A \<open>style\<close> prop is an object of CSS properties.
\<close>

datatype css = CssStr string | CssNum int

datatype propval = PStr jsstring | PStyle "(string \<times> css) list"

datatype element =
    Element string "(string \<times> propval) list" "element list"
  | Text jsstring
  | Number int

section \<open>Path matching (\<open>matchPath\<close> of the router)\<close>

text \<open>
  The router (React Router 4, a library) compiles a path pattern to a regular
  expression and runs it on the pathname.  The patterns of this program, the two
  paths of the route table and the targets of the navigation links, are words and
  \<open>:name\<close> parameters in ASCII, each after a slash, compiled without the \<open>strict\<close> and
  \<open>sensitive\<close> options.  For \<open>/popular/:id\<close> the expression is
  \<^verbatim>\<open>^\/popular\/([^\/]+?)(?:\/(?=$))?(?=\/|$)\<close>, ignoring case, and for \<open>/\<close> with \<open>end\<close>
  it is \<^verbatim>\<open>^(?:\/(?=$))?$\<close>: a word matches itself whatever the case of its letters,
  a parameter matches a non-empty run of characters other than the slash, one trailing
  slash is optional, and unless \<open>end\<close> is set the pathname may go on after a slash.
  The model works on the pieces of the pattern and of the pathname between slashes.
\<close>

datatype token = Literal jsstring | Param jsstring

fun to_token :: "jsstring \<Rightarrow> token" where
  "to_token (c # cs) = (if c = 0x3A then Param cs else Literal (c # cs))"
| "to_token [] = Literal []"

definition compilePath :: "jsstring \<Rightarrow> token list" where
  "compilePath pattern = map to_token (filter (\<lambda>s. s \<noteq> []) (split_slash pattern))"

text \<open>The letters \<open>A\<close> to \<open>Z\<close> in lower case; every other code unit as it is.\<close>

definition lower :: "unit16 \<Rightarrow> unit16" where
  "lower c = (if 0x41 \<le> c \<and> c \<le> 0x5A then c + 0x20 else c)"

text \<open>The tokens against the segments of the pathname that follow its leading slash:
  the parameters' values and the segments left over, or \<open>None\<close> when they do not match.\<close>

fun match_tokens ::
  "token list \<Rightarrow> jsstring list \<Rightarrow> ((jsstring \<times> jsstring) list \<times> jsstring list) option" where
  "match_tokens [] segs = Some ([], segs)"
| "match_tokens (t # ts) [] = None"
| "match_tokens (Literal w # ts) (s # segs) =
     (if map lower s = map lower w then match_tokens ts segs else None)"
| "match_tokens (Param n # ts) (s # segs) =
     (if s = [] then None
      else (case match_tokens ts segs of
              None \<Rightarrow> None
            | Some (ps, r) \<Rightarrow> Some ((n, s) # ps, r)))"

record match =
  m_path :: jsstring
  isExact :: bool
  params :: "(jsstring \<times> jsstring) list"

text \<open>
  \<open>matchPath(pathname, { path, exact })\<close>.  \<open>exact\<close> is absent (\<open>None\<close>) or a string, as
  in the route table.  The regular expression is anchored at the end unless the option
  \<open>end\<close> is \<open>false\<close>, which it is exactly when \<open>exact\<close> is absent; a match that does not
  cover the whole pathname is dropped when \<open>exact\<close> is truthy (a non-empty string).
\<close>

definition matchPath :: "jsstring \<Rightarrow> jsstring \<Rightarrow> jsstring option \<Rightarrow> match option" where
  "matchPath pathname pattern exact =
     (case split_slash pathname of
        [] \<Rightarrow> None
      | s0 # segs \<Rightarrow>
          if s0 \<noteq> [] then None
          else (case match_tokens (compilePath pattern) segs of
                  None \<Rightarrow> None
                | Some (ps, r) \<Rightarrow>
                    let whole = (r = [] \<or> r = [[]]);
                        end = (exact \<noteq> None);
                        exact_truthy = (exact \<noteq> None \<and> exact \<noteq> Some [])
                    in if end \<and> \<not> whole then None
                       else if exact_truthy \<and> \<not> whole then None
                       else Some \<lparr>m_path = pattern, isExact = whole, params = ps\<rparr>))"

section \<open>The route table (\<open>src/shared/routes.js\<close>)\<close>

datatype component = Home | Grid

text \<open>\<open>(path = '') => fetchPopularRepos(path.split('/').pop())\<close>\<close>

definition fetchInitialData ::
  "(jsstring \<Rightarrow> 'a response promise) \<Rightarrow> jsstring option \<Rightarrow> error + 'a js outcome" where
  "fetchInitialData fetch path_arg =
     (let path = (case path_arg of None \<Rightarrow> [] | Some p \<Rightarrow> p)
      in fetchPopularRepos fetch (pop (split_slash path)))"

text \<open>A route descriptor; \<open>loader\<close> is its optional \<open>fetchInitialData\<close> field.\<close>

record 'a route =
  path :: jsstring
  exact :: "jsstring option"
  component :: component
  loader ::
    "((jsstring \<Rightarrow> 'a response promise) \<Rightarrow> jsstring option \<Rightarrow> error + 'a js outcome) option"

definition routes :: "'a route list" where
  "routes =
     [ \<lparr>path = ascii ''/'', exact = Some (ascii ''true''), component = Home, loader = None\<rparr>,
       \<lparr>path = ascii ''/popular/:id'', exact = None, component = Grid,
        loader = Some fetchInitialData\<rparr> ]"

text \<open>\<open>routes.find((route) => matchPath(url, route))\<close>\<close>

definition matches :: "jsstring \<Rightarrow> 'a route \<Rightarrow> bool" where
  "matches pathname r = (matchPath pathname (path r) (exact r) \<noteq> None)"

definition find_route :: "jsstring \<Rightarrow> 'a route option" where
  "find_route pathname = find (matches pathname) routes"

text \<open>The \<open>Switch\<close> of \<open>App\<close> tries its \<open>Route\<close> children in order and renders the first
  whose path matches; the last child has no path and renders \<open>NoMatch\<close>.\<close>

fun switch_match :: "jsstring \<Rightarrow> 'a route list \<Rightarrow> ('a route \<times> match) option" where
  "switch_match pathname [] = None"
| "switch_match pathname (r # rs) =
     (case matchPath pathname (path r) (exact r) of
        None \<Rightarrow> switch_match pathname rs
      | Some m \<Rightarrow> Some (r, m))"

section \<open>The Grid view (\<open>src/shared/grid.js\<close>)\<close>

record owner =
  login :: jsstring

record repo =
  name :: jsstring
  owner :: owner
  stargazers_count :: int
  html_url :: jsstring

type_synonym data = "repo list js"

text \<open>An object whose properties hold data: the browser's \<open>window\<close> and the router's
  static context.  Reading a property that is not there gives \<open>undefined\<close>.\<close>

type_synonym object = "string \<rightharpoonup> data"

definition get_prop :: "object \<Rightarrow> string \<Rightarrow> data" where
  "get_prop obj k = (case obj k of None \<Rightarrow> Undefined | Some v \<Rightarrow> v)"

definition slot :: string where
  "slot = ''__INITIAL_DATA__''"

type_synonym fetch = "jsstring \<Rightarrow> repo list response promise"

record grid_props =
  props_match :: match
  staticContext :: "object option"
  props_fetchInitialData :: "(fetch \<Rightarrow> jsstring option \<Rightarrow> error + data outcome) option"

record grid_state =
  repos :: data
  loading :: bool

text \<open>\<open>match.params.id\<close>\<close>

definition params_id :: "grid_props \<Rightarrow> jsstring option" where
  "params_id props = map_of (params (props_match props)) (ascii ''id'')"

text \<open>The constructor: in the browser it reads the global slot and deletes it; on the
  server it reads \<open>props.staticContext.data\<close>, which throws without a static context.\<close>

definition Grid_constructor ::
  "bool \<Rightarrow> object \<Rightarrow> grid_props \<Rightarrow> error + (object \<times> grid_state)" where
  "Grid_constructor isBrowser window props =
     (if isBrowser then
        (let rs = get_prop window slot;
             window' = window(slot := None)
         in Inr (window', \<lparr>repos = rs, loading = (if truthy rs then False else True)\<rparr>))
      else
        (case staticContext props of
           None \<Rightarrow> Inl TypeError
         | Some context \<Rightarrow>
             (let rs = get_prop context ''data''
              in Inr (window, \<lparr>repos = rs, loading = (if truthy rs then False else True)\<rparr>))))"

text \<open>
  \<open>fetchRepos(lang)\<close> sets \<open>loading\<close> and calls the loader it got as a prop; the result is
  the state while the call is in flight and what the call did.  \<open>fetchRepos_then\<close> is the
  callback that runs when the loader's promise is fulfilled, \<open>fetchRepos_settled\<close> the
  state once the promise has settled (nothing handles a rejection).
\<close>

definition fetchRepos ::
  "fetch \<Rightarrow> grid_props \<Rightarrow> grid_state \<Rightarrow> jsstring option
     \<Rightarrow> error + (grid_state \<times> data outcome)" where
  "fetchRepos fetch props st lang =
     (let st' = st\<lparr>loading := True\<rparr>
      in case props_fetchInitialData props of
           None \<Rightarrow> Inl TypeError
         | Some f \<Rightarrow> (case f fetch lang of Inl e \<Rightarrow> Inl e | Inr out \<Rightarrow> Inr (st', out)))"

definition fetchRepos_then :: "grid_state \<Rightarrow> data \<Rightarrow> grid_state" where
  "fetchRepos_then st rs = st\<lparr>repos := rs, loading := False\<rparr>"

fun fetchRepos_settled :: "grid_state \<Rightarrow> data promise \<Rightarrow> grid_state" where
  "fetchRepos_settled st (Fulfilled rs) = fetchRepos_then st rs"
| "fetchRepos_settled st Pending = st"
| "fetchRepos_settled st (Rejected e) = st"

text \<open>The two lifecycle methods call \<open>fetchRepos\<close> or do nothing (\<open>None\<close>: no call).\<close>

definition called ::
  "error + (grid_state \<times> data outcome) \<Rightarrow> error + (grid_state \<times> data outcome option)" where
  "called r = (case r of Inl e \<Rightarrow> Inl e | Inr (st, out) \<Rightarrow> Inr (st, Some out))"

definition componentDidMount ::
  "fetch \<Rightarrow> grid_props \<Rightarrow> grid_state \<Rightarrow> error + (grid_state \<times> data outcome option)" where
  "componentDidMount fetch props st =
     (if \<not> truthy (repos st) then called (fetchRepos fetch props st (params_id props))
      else Inr (st, None))"


definition entry :: "repo \<Rightarrow> element" where
  "entry r =
     Element ''li'' [(''key'', PStr (name r)), (''style'', PStyle [(''margin'', CssNum 30)])]
       [Element ''ul'' []
         [Element ''li'' [] [Element ''a'' [(''href'', PStr (html_url r))] [Text (name r)]],
          Element ''li'' [] [Text (ascii ''@''), Text (login (owner r))],
          Element ''li'' [] [Number (stargazers_count r), Text (ascii '' stars'')]]]"

text \<open>\<open>render\<close>: \<open>repos.map\<close> throws when \<open>repos\<close> is \<open>null\<close> or \<open>undefined\<close>.\<close>

definition Grid_render :: "grid_state \<Rightarrow> error + element" where
  "Grid_render st =
     (if loading st = True then Inr (Element ''h1'' [] [Text (ascii ''LOADING'')])
      else (case repos st of
              Val rs \<Rightarrow>
                Inr (Element ''ul''
                      [(''style'', PStyle [(''display'', CssStr ''flex''),
                                          (''flexWrap'', CssStr ''wrap'')])]
                      (map entry rs))
            | Undefined \<Rightarrow> Inl TypeError
            | Null \<Rightarrow> Inl TypeError))"

section \<open>The other views (\<open>navbar.js\<close>, \<open>home.js\<close>, \<open>app.js\<close>)\<close>

definition languages :: "(jsstring \<times> jsstring) list" where
  "languages =
     [(ascii ''All'', ascii ''all''), (ascii ''JavaScript'', ascii ''javascript''),
      (ascii ''Go'', ascii ''golang''), (ascii ''TypeScript'', ascii ''typescript''),
      (ascii ''Rust'', ascii ''rust''), (ascii ''Julia'', ascii ''julia'')]"

text \<open>A \<open>NavLink\<close> is a link that takes its \<open>activeStyle\<close> when its target matches the
  current pathname (not exactly: as a prefix).  Of what the library adds to an active
  link, only the style the navigation bar gives is kept.\<close>

definition NavLink :: "jsstring \<Rightarrow> jsstring \<Rightarrow> jsstring \<Rightarrow> element" where
  "NavLink pathname to label =
     Element ''a''
       ((''href'', PStr to) #
        (if matchPath pathname to None \<noteq> None
         then [(''style'', PStyle [(''fontWeight'', CssStr ''bold'')])] else []))
       [Text label]"

definition Navbar :: "jsstring \<Rightarrow> element" where
  "Navbar pathname =
     Element ''ul'' []
       (map (\<lambda>(label, param).
               Element ''li'' [(''key'', PStr param)]
                 [NavLink pathname (ascii ''/popular/'' @ param) label])
            languages)"

definition Home_render :: element where
  "Home_render = Element ''div'' [] [Text (ascii ''Select a language'')]"

text \<open>The element a \<open>Route\<close> renders for its component, \<open><C {...props} {...rest} />\<close>:
  the first render of the component, with the window as the constructor leaves it and,
  for the Grid, the instance that was constructed (its props and state).\<close>

fun render_component ::
  "bool \<Rightarrow> object \<Rightarrow> grid_props \<Rightarrow> component
     \<Rightarrow> error + (object \<times> element \<times> (grid_props \<times> grid_state) option)" where
  "render_component isBrowser window props Home = Inr (window, Home_render, None)"
| "render_component isBrowser window props Grid =
     (case Grid_constructor isBrowser window props of
        Inl e \<Rightarrow> Inl e
      | Inr (window', st) \<Rightarrow>
          (case Grid_render st of
             Inl e \<Rightarrow> Inl e
           | Inr el \<Rightarrow> Inr (window', el, Some (props, st))))"

text \<open>
  \<open>App.render\<close> under a router whose location has the given pathname and whose static
  context is \<open>context\<close> (absent in the browser).  \<open>NoMatch\<close> is the element of the view of
  \<open>src/shared/404.js\<close>.  The \<open>data\<close> prop of \<open>App\<close> is not used by it.
\<close>

definition App_render ::
  "bool \<Rightarrow> element \<Rightarrow> object \<Rightarrow> jsstring \<Rightarrow> object option \<Rightarrow> data
     \<Rightarrow> error + (object \<times> element \<times> (grid_props \<times> grid_state) option)" where
  "App_render isBrowser NoMatch window pathname context app_data =
     (case switch_match pathname routes of
        None \<Rightarrow> Inr (window, Element ''div'' [] [Navbar pathname, NoMatch], None)
      | Some (r, m) \<Rightarrow>
          (case render_component isBrowser window
                  \<lparr>props_match = m, staticContext = context,
                   props_fetchInitialData = loader r\<rparr> (component r) of
             Inl e \<Rightarrow> Inl e
           | Inr (window', el, g) \<Rightarrow>
               Inr (window', Element ''div'' [] [Navbar pathname, el], g)))"

section \<open>The browser entry (\<open>src/browser/index.js\<close>)\<close>

text \<open>
  \<open>hydrate(<BrowserRouter><App data={window.__INITIAL_DATA__} /></BrowserRouter>, ...)\<close>
  on a page whose address has the given pathname, as the address has it (with its
  percent-escapes).  The router's history decodes the pathname with \<open>decodeURI\<close> and
  throws when that throws; the route switch sees the decoded pathname.  The slot is
  read for the \<open>data\<close> prop and left in place.  The result is the window after the first
  render, the element rendered and the Grid instance, if one was constructed.
\<close>

definition browser_entry ::
  "element \<Rightarrow> object \<Rightarrow> jsstring
     \<Rightarrow> error + (object \<times> element \<times> (grid_props \<times> grid_state) option)" where
  "browser_entry NoMatch window raw_pathname =
     (case decodeURI raw_pathname of
        Inl e \<Rightarrow> Inl URIError
      | Inr pathname \<Rightarrow> App_render True NoMatch window pathname None (get_prop window slot))"

text \<open>After the first render the browser calls \<open>componentDidMount\<close> of the Grid
  instance, if there is one.\<close>

definition didMount ::
  "fetch \<Rightarrow> (grid_props \<times> grid_state) option
     \<Rightarrow> error + (grid_state \<times> data outcome option) option" where
  "didMount fetch g =
     (case g of
        None \<Rightarrow> Inr None
      | Some (props, st) \<Rightarrow>
          (case componentDidMount fetch props st of
             Inl e \<Rightarrow> Inl e
           | Inr r \<Rightarrow> Inr (Some r)))"

section \<open>The server entry (\<open>src/server/index.js\<close>)\<close>

record request =
  req_url :: jsstring
  req_path :: jsstring

record document =
  markup :: element
  initial_data :: data

datatype reply = File | Sent document | Next error | NoReply

text \<open>Whether the handler called a loader: it did not, or the loader threw, or it
  returned.\<close>

datatype call = NotCalled | Threw error | Returned "data outcome"

text \<open>\<open>renderToString(<StaticRouter location='req.url' context={{}}><App data={data} />
  </StaticRouter>)\<close>: the location is the string written there, the context is empty.
  The result is kept as the element tree; turning it into text is the library's part.\<close>

definition server_markup :: "element \<Rightarrow> data \<Rightarrow> error + element" where
  "server_markup NoMatch app_data =
     (case App_render False NoMatch Map.empty (ascii ''req.url'') (Some Map.empty) app_data of
        Inl e \<Rightarrow> Inl e
      | Inr (w, el, g) \<Rightarrow> Inr el)"

text \<open>\<open>promise.then((data) => { ... res.send(...) }).catch(next)\<close>: the document sent
  embeds the markup and the serialized data; an error goes to \<open>next\<close>.\<close>

definition respond :: "element \<Rightarrow> data promise \<Rightarrow> reply" where
  "respond NoMatch promise =
     (case promise of
        Pending \<Rightarrow> NoReply
      | Rejected e \<Rightarrow> Next e
      | Fulfilled d \<Rightarrow>
          (case server_markup NoMatch d of
             Inl e \<Rightarrow> Next e
           | Inr el \<Rightarrow> Sent \<lparr>markup = el, initial_data = d\<rparr>))"

text \<open>The handler of \<open>app.get('*', ...)\<close>.  The route is looked up with \<open>req.url\<close>, the
  loader is called with \<open>req.path\<close>; without a loader the promise is
  \<open>Promise.resolve()\<close>.  An exception thrown in the handler goes to \<open>next\<close>.\<close>

definition server_get :: "element \<Rightarrow> fetch \<Rightarrow> request \<Rightarrow> call \<times> reply" where
  "server_get NoMatch fetch req =
     (let activeRoute = find_route (req_url req)
      in case (case activeRoute of None \<Rightarrow> None | Some r \<Rightarrow> loader r) of
           Some f \<Rightarrow>
             (case f fetch (Some (req_path req)) of
                Inl e \<Rightarrow> (Threw e, Next e)
              | Inr out \<Rightarrow> (Returned out, respond NoMatch (result out)))
         | None \<Rightarrow> (NotCalled, respond NoMatch (Fulfilled Undefined)))"

text \<open>\<open>app.use(express.static('public'))\<close> comes before the handler: a request for
  which it finds a file (\<open>static\<close>) is answered with the file and does not reach the
  handler.  The \<open>cors\<close> middleware before it lets every request through.\<close>

definition app :: "(request \<Rightarrow> bool) \<Rightarrow> element \<Rightarrow> fetch \<Rightarrow> request \<Rightarrow> call \<times> reply" where
  "app static NoMatch fetch req =
     (if static req then (NotCalled, File) else server_get NoMatch fetch req)"

section \<open>What an element displays\<close>

text \<open>The text and number children of an element, in document order, and its links:
  the \<open>href\<close> of every \<open>a\<close> element with what the link displays.\<close>

datatype piece = S jsstring | N int

fun content :: "element \<Rightarrow> piece list" where
  "content (Text s) = [S s]"
| "content (Number n) = [N n]"
| "content (Element t ps cs) = concat (map content cs)"

fun links :: "element \<Rightarrow> (propval option \<times> piece list) list" where
  "links (Text s) = []"
| "links (Number n) = []"
| "links (Element t ps cs) =
     (if t = ''a'' then [(map_of ps ''href'', concat (map content cs))] else [])
     @ concat (map links cs)"

section \<open>Strings and \<open>encodeURI\<close>: properties\<close>

lemma nat_of_char_less: "(of_char c :: nat) < 256"
  by (metis of_char_mod_256 mod_less_divisor zero_less_numeral)

lemma unat_of_char: "unat (of_char c :: 16 word) = of_char c"
proof -
  have small: "(of_char c :: nat) < 65536"
    using nat_of_char_less [of c] by linarith
  have "unat (of_nat (of_char c) :: 16 word) = of_char c mod 2 ^ LENGTH(16)"
    by (rule unat_of_nat)
  also have "\<dots> = of_char c"
    using small by (simp only: len_of_numeral_defs) simp
  finally show ?thesis by (simp only: of_nat_of_char)
qed


lemma plain_of_char: "plain (of_char c)"
  using nat_of_char_less [of c]
  unfolding plain_def is_high_def is_low_def unat_of_char by linarith

lemma plain_ascii: "list_all plain (ascii s)"
  by (simp add: ascii_def list_all_iff plain_of_char)

lemma unescaped_plain: "c \<in> set unescapedURISet \<Longrightarrow> plain c"
  using plain_ascii [of "uriReserved @ uriAlpha @ decimalDigit @ uriMark @ ''#''"]
  by (simp add: unescapedURISet_def list_all_iff)

lemma unescaped_not_surrogate:
  "c \<in> set unescapedURISet \<Longrightarrow> \<not> is_high c \<and> \<not> is_low c"
  by (drule unescaped_plain) (simp add: plain_def)

lemma encodeURI_well_formed: "well_formed s \<Longrightarrow> \<exists>r. encodeURI s = Inr r"
proof (induction s rule: well_formed.induct)
  case 1
  then show ?case by simp
next
  case (2 c)
  then show ?case by (simp add: unescaped_not_surrogate)
next
  case (3 c k ks)
  then show ?case
    by (cases "c \<in> set unescapedURISet")
       (auto simp add: unescaped_not_surrogate split: if_splits sum.splits)
qed

lemma encodeURI_ill_formed: "\<not> well_formed s \<Longrightarrow> encodeURI s = Inl URIError"
proof (induction s rule: well_formed.induct)
  case 1
  then show ?case by simp
next
  case (2 c)
  then show ?case by (auto simp add: unescaped_not_surrogate)
next
  case (3 c k ks)
  then show ?case
    by (cases "c \<in> set unescapedURISet")
       (auto simp add: unescaped_not_surrogate split: if_splits sum.splits)
qed

lemma encodeURI_append:
  "encodeURI a = Inr ra \<Longrightarrow>
     encodeURI (a @ b) = (case encodeURI b of Inl e \<Rightarrow> Inl e | Inr rb \<Rightarrow> Inr (ra @ rb))"
proof (induction a arbitrary: ra rule: encodeURI.induct)
  case 1
  then show ?case by (simp split: sum.splits)
next
  case (2 c cs)
  show ?case
  proof (cases "c \<in> set unescapedURISet")
    case True
    with 2 show ?thesis by (auto split: sum.splits)
  next
    case False
    note out = False
    show ?thesis
    proof (cases "is_high c")
      case False
      with out 2 show ?thesis by (auto split: sum.splits if_splits)
    next
      case True
      note high = True
      from "2.prems" out high have notlow: "\<not> is_low c"
        by (auto split: if_splits)
      from "2.prems" out high notlow obtain k ks r'
        where cs: "cs = k # ks" and low: "is_low k" and ks: "encodeURI ks = Inr r'"
          and ra: "ra = escapes (pair_value c k) @ r'"
        by (cases cs) (auto split: if_splits sum.splits)
      have "encodeURI (ks @ b) =
          (case encodeURI b of Inl e \<Rightarrow> Inl e | Inr rb \<Rightarrow> Inr (r' @ rb))"
        using out notlow high cs low ks by (intro "2.IH"(3)) simp_all
      then show ?thesis
        using out notlow high cs low ra by (simp split: sum.splits)
    qed
  qed
qed

lemma well_formed_prepend: "list_all plain a \<Longrightarrow> well_formed (a @ x) = well_formed x"
proof (induction a)
  case Nil
  then show ?case by simp
next
  case (Cons c a)
  then show ?case by (cases "a @ x") (auto simp add: plain_def)
qed

lemma well_formed_append:
  "b = [] \<or> \<not> is_low (hd b) \<Longrightarrow> well_formed (l @ b) = (well_formed l \<and> well_formed b)"
proof (induction l rule: well_formed.induct)
  case 1
  then show ?case by simp
next
  case (2 c)
  then show ?case by (cases b) auto
next
  case (3 c k ks)
  then show ?case by auto
qed

lemma well_formed_plain: "list_all plain a \<Longrightarrow> well_formed a"
  using well_formed_prepend [of a "[]"] by simp

lemma well_formed_template:
  "well_formed (ascii a @ l @ ascii b) = well_formed l"
proof -
  have "ascii b = [] \<or> \<not> is_low (hd (ascii b))"
    using plain_ascii [of b] by (cases "ascii b") (auto simp add: plain_def)
  then have "well_formed (l @ ascii b) = well_formed l"
    by (simp add: well_formed_append well_formed_plain plain_ascii)
  then show ?thesis
    by (simp add: well_formed_prepend plain_ascii)
qed

lemma of_char_unit16_eq_iff: "(of_char c :: unit16) = of_char d \<longleftrightarrow> c = d"
proof
  assume "(of_char c :: unit16) = of_char d"
  then have "unat (of_char c :: unit16) = unat (of_char d :: unit16)" by simp
  then have "(of_char c :: nat) = of_char d" by (simp only: unat_of_char)
  then show "c = d" by simp
qed simp

lemma of_char_in_ascii: "(of_char c :: unit16) \<in> set (ascii u) \<longleftrightarrow> c \<in> set u"
  by (auto simp add: ascii_def of_char_unit16_eq_iff)

lemma encodeURI_unescaped: "set s \<subseteq> set unescapedURISet \<Longrightarrow> encodeURI s = Inr s"
  by (induction s) simp_all

lemma encodeURI_ascii_unescaped:
  assumes "set s \<subseteq> set (uriReserved @ uriAlpha @ decimalDigit @ uriMark @ ''#'')"
  shows "encodeURI (ascii s) = Inr (ascii s)"
proof (rule encodeURI_unescaped)
  show "set (ascii s) \<subseteq> set unescapedURISet"
    using assms unfolding unescapedURISet_def
    by (auto simp add: ascii_def of_char_unit16_eq_iff)
qed

lemma ascii_append: "ascii (a @ b) = ascii a @ ascii b"
  by (simp add: ascii_def)

lemmas uri_sets = uriReserved_def uriAlpha_def decimalDigit_def uriMark_def

lemma encodeURI_greater: "encodeURI (ascii ''>'') = Inr (ascii ''%3E'')"
  by (simp add: ascii_def unescapedURISet_def uri_sets is_low_def is_high_def escapes_def
      utf8_def percent_def hexDigits_def)

lemma encodeURI_url_prefix:
  "encodeURI (ascii url_prefix) =
     Inr (ascii ''https://api.github.com/search/repositories?q=stars:%3E1+language:'')"
proof -
  have a: "encodeURI (ascii ''https://api.github.com/search/repositories?q=stars:'')
      = Inr (ascii ''https://api.github.com/search/repositories?q=stars:'')"
    by (rule encodeURI_ascii_unescaped) (simp add: uri_sets)
  have b: "encodeURI (ascii ''1+language:'') = Inr (ascii ''1+language:'')"
    by (rule encodeURI_ascii_unescaped) (simp add: uri_sets)
  have split: "ascii url_prefix =
      ascii ''https://api.github.com/search/repositories?q=stars:''
      @ ascii ''>'' @ ascii ''1+language:''"
    by (simp add: url_prefix_def ascii_def)
  show ?thesis
    unfolding split
    by (simp add: encodeURI_append [OF a] encodeURI_append [OF encodeURI_greater] b)
       (simp add: ascii_def)
qed

lemma encodeURI_url_suffix:
  "encodeURI (ascii url_suffix) = Inr (ascii ''&sort=stars&order=desc&type=Repositories'')"
  unfolding url_suffix_def
  by (rule encodeURI_ascii_unescaped) (simp add: uri_sets)

lemma encodedURI_well_formed:
  assumes "encodeURI (language_term language) = Inr r"
  shows "encodedURI language =
     Inr (ascii ''https://api.github.com/search/repositories?q=stars:%3E1+language:''
          @ r @ ascii ''&sort=stars&order=desc&type=Repositories'')"
  by (simp add: encodedURI_def encodeURI_append [OF encodeURI_url_prefix]
      encodeURI_append [OF assms] encodeURI_url_suffix)

lemma encodedURI_ill_formed:
  assumes "\<not> well_formed (language_term language)"
  shows "encodedURI language = Inl URIError"
  unfolding encodedURI_def
  by (rule encodeURI_ill_formed) (simp add: well_formed_template assms)

section \<open>The Data Loader and the route table: properties\<close>

lemma fetchPopularRepos_returns:
  assumes "encodedURI language = Inr uri"
  shows "fetchPopularRepos fetch language =
     Inr \<lparr>requests = [uri],
          warnings = fst (catch_warn (then_value (then_promise (fetch uri) json) get_items)),
          result = snd (catch_warn (then_value (then_promise (fetch uri) json) get_items))\<rparr>"
  by (simp add: fetchPopularRepos_def assms Let_def split: prod.splits)

lemma fetchPopularRepos_throws:
  assumes "encodedURI language = Inl e"
  shows "fetchPopularRepos fetch language = Inl e"
  by (simp add: fetchPopularRepos_def assms)

lemma requests_fetchPopularRepos:
  "map_sum id requests (fetchPopularRepos fetch language) =
     map_sum id (\<lambda>uri. [uri]) (encodedURI language)"
  by (cases "encodedURI language")
     (simp_all add: fetchPopularRepos_throws fetchPopularRepos_returns)




lemma split_slash_not_Nil: "split_slash p \<noteq> []"
  by (induction p) (auto split: list.splits)

lemma split_slash_append_slash: "split_slash (p @ ascii ''/'') = split_slash p @ [[]]"
  by (induction p) (auto split: list.splits simp: split_slash_not_Nil ascii_def)

lemma pop_split_slash: "pop (split_slash p) = Some (last (split_slash p))"
  by (simp add: pop_def split_slash_not_Nil)

lemma fetchInitialData_eq:
  "fetchInitialData fetch (Some p) = fetchPopularRepos fetch (Some (last (split_slash p)))"
  by (simp add: fetchInitialData_def pop_split_slash)

lemma encodedURI_empty:
  "encodedURI (Some []) =
     Inr (ascii ''https://api.github.com/search/repositories?q=stars:%3E1+language:&sort=stars&order=desc&type=Repositories'')"
proof -
  have "encodeURI (language_term (Some [])) = Inr []"
    by (simp add: language_term_def)
  from encodedURI_well_formed [OF this] show ?thesis
    by (simp add: ascii_def)
qed

lemma encodedURI_absent:
  "encodedURI None =
     Inr (ascii ''https://api.github.com/search/repositories?q=stars:%3E1+language:all&sort=stars&order=desc&type=Repositories'')"
proof -
  have "encodeURI (language_term None) = Inr (ascii ''all'')"
    unfolding language_term_def option.case
    by (rule encodeURI_ascii_unescaped) (simp add: uri_sets)
  from encodedURI_well_formed [OF this] show ?thesis
    by (simp add: ascii_def)
qed

lemma encodedURI_javascript:
  "encodedURI (Some (ascii ''javascript'')) =
     Inr (ascii ''https://api.github.com/search/repositories?q=stars:%3E1+language:javascript&sort=stars&order=desc&type=Repositories'')"
proof -
  have "encodeURI (language_term (Some (ascii ''javascript''))) = Inr (ascii ''javascript'')"
    unfolding language_term_def option.case
    by (rule encodeURI_ascii_unescaped) (simp add: uri_sets)
  from encodedURI_well_formed [OF this] show ?thesis
    by (simp add: ascii_def)
qed

text \<open>
  C10.  The route's \<open>fetchInitialData\<close> hands the Data Loader the last piece of the
  request path between slashes: \<open>javascript\<close> for \<open>/popular/javascript\<close>, and the empty
  string for every path that ends in a slash.  The default \<open>all\<close> is not applied then:
  the URL requested has an empty language term and differs from the one requested
  without an argument.
\<close>

theorem fetchInitialData_last_segment:
  "fetchInitialData fetch (Some p) = fetchPopularRepos fetch (Some (last (split_slash p)))
   \<and> map_sum id requests (fetchInitialData fetch (Some (ascii ''/popular/javascript''))) =
       Inr [ascii ''https://api.github.com/search/repositories?q=stars:%3E1+language:javascript&sort=stars&order=desc&type=Repositories'']
   \<and> map_sum id requests (fetchInitialData fetch (Some (p @ ascii ''/''))) =
       Inr [ascii ''https://api.github.com/search/repositories?q=stars:%3E1+language:&sort=stars&order=desc&type=Repositories'']
   \<and> map_sum id requests (fetchInitialData fetch (Some (p @ ascii ''/'')))
       \<noteq> map_sum id requests (fetchPopularRepos fetch None)
   \<and> map_sum id requests (fetchPopularRepos fetch None) =
       Inr [ascii ''https://api.github.com/search/repositories?q=stars:%3E1+language:all&sort=stars&order=desc&type=Repositories'']"
proof -
  have js: "last (split_slash (ascii ''/popular/javascript'')) = ascii ''javascript''"
    by (simp add: ascii_def)
  have sl: "last (split_slash (p @ ascii ''/'')) = []"
    by (simp add: split_slash_append_slash)
  have ne: "ascii ''https://api.github.com/search/repositories?q=stars:%3E1+language:&sort=stars&order=desc&type=Repositories''
      \<noteq> ascii ''https://api.github.com/search/repositories?q=stars:%3E1+language:all&sort=stars&order=desc&type=Repositories''"
    by (simp add: ascii_def)
  show ?thesis
    unfolding fetchInitialData_eq requests_fetchPopularRepos js sl
      encodedURI_javascript encodedURI_empty encodedURI_absent
    using ne by simp
qed

text \<open>
  C3 as stated, that the route table has five entries, does not hold.
\<close>

theorem routes_not_five: "length (routes :: repo list route list) \<noteq> 5"
  by (simp add: routes_def)

text \<open>
  C3 (as the code has it).  The route table is a constant list of exactly two route
  descriptors: \<open>/\<close> (exact) for Home and \<open>/popular/:id\<close> for the Grid with its loader.
\<close>

theorem routes_two_entries:
  "length (routes :: 'a route list) = 2
   \<and> map path (routes :: 'a route list) = [ascii ''/'', ascii ''/popular/:id'']
   \<and> map component (routes :: 'a route list) = [Home, Grid]
   \<and> map exact (routes :: 'a route list) = [Some (ascii ''true''), None]
   \<and> map loader (routes :: 'a route list) = [None, Some fetchInitialData]"
  by (simp add: routes_def)

lemma catch_warn_not_Rejected: "snd (catch_warn p) \<noteq> Rejected e"
  by (cases p) simp_all

text \<open>
  C5 as stated, for every input, does not hold: on a language string with a lone
  surrogate \<open>encodeURI\<close> throws before the promise chain is built, so the call throws
  and returns no promise.
\<close>

theorem fetchPopularRepos_lone_surrogate:
  "fetchPopularRepos (\<lambda>u. Pending :: repo list response promise) (Some [0xD800])
     = Inl URIError"
proof -
  have "\<not> well_formed (language_term (Some [0xD800]))"
    by (simp add: language_term_def is_high_def is_low_def)
  then show ?thesis
    by (intro fetchPopularRepos_throws encodedURI_ill_formed)
qed

text \<open>
  C5 (as the code has it).  For every language string without a lone surrogate (and
  for the absent argument) the call returns a promise, and whatever the fetch does the
  promise is never rejected.  When the fetch is rejected, when parsing the body is
  rejected, and when reading \<open>items\<close> throws (the body is \<open>null\<close>), the error is passed to
  \<open>console.warn\<close> and the promise is fulfilled with \<open>null\<close>; when the body is an object
  the promise is fulfilled with its \<open>items\<close> field and nothing is logged; while the fetch
  or the parsing is pending so is the promise.  For a string with a lone surrogate the
  call throws a \<open>URIError\<close>.
\<close>

theorem fetchPopularRepos_never_rejects:
  "(well_formed (language_term language) \<longrightarrow>
      (\<exists>uri out.
          encodedURI language = Inr uri
        \<and> fetchPopularRepos fetch language = Inr out
        \<and> requests out = [uri]
        \<and> (\<forall>e. result out \<noteq> Rejected e)
        \<and> (\<forall>e. fetch uri = Rejected e \<longrightarrow>
              result out = Fulfilled Null \<and> warnings out = [e])
        \<and> (\<forall>e. fetch uri = Fulfilled (Response (Rejected e)) \<longrightarrow>
              result out = Fulfilled Null \<and> warnings out = [e])
        \<and> (fetch uri = Fulfilled (Response (Fulfilled JNull)) \<longrightarrow>
              result out = Fulfilled Null \<and> warnings out = [TypeError])
        \<and> (\<forall>obj. fetch uri = Fulfilled (Response (Fulfilled (JObject obj))) \<longrightarrow>
              result out = Fulfilled (case obj ''items'' of None \<Rightarrow> Undefined | Some v \<Rightarrow> v)
              \<and> warnings out = [])
        \<and> (\<forall>body items.
              fetch uri = Fulfilled (Response (Fulfilled body)) \<and> get_items body = Inr items \<longrightarrow>
              result out = Fulfilled items \<and> warnings out = [])
        \<and> (fetch uri = Pending \<or> fetch uri = Fulfilled (Response Pending) \<longrightarrow>
              result out = Pending \<and> warnings out = [])))
   \<and> (\<not> well_formed (language_term language) \<longrightarrow>
        fetchPopularRepos fetch language = Inl URIError)"
proof (intro conjI impI)
  assume wf: "well_formed (language_term language)"
  from encodeURI_well_formed [OF wf] obtain r
    where "encodeURI (language_term language) = Inr r" by blast
  from encodedURI_well_formed [OF this] obtain uri
    where uri: "encodedURI language = Inr uri" by blast
  let ?p = "then_value (then_promise (fetch uri) json) get_items"
  let ?out = "\<lparr>requests = [uri], warnings = fst (catch_warn ?p),
               result = snd (catch_warn ?p)\<rparr>"
  have out: "fetchPopularRepos fetch language = Inr ?out"
    by (rule fetchPopularRepos_returns [OF uri])
  have "requests ?out = [uri]
        \<and> (\<forall>e. result ?out \<noteq> Rejected e)
        \<and> (\<forall>e. fetch uri = Rejected e \<longrightarrow>
              result ?out = Fulfilled Null \<and> warnings ?out = [e])
        \<and> (\<forall>e. fetch uri = Fulfilled (Response (Rejected e)) \<longrightarrow>
              result ?out = Fulfilled Null \<and> warnings ?out = [e])
        \<and> (fetch uri = Fulfilled (Response (Fulfilled JNull)) \<longrightarrow>
              result ?out = Fulfilled Null \<and> warnings ?out = [TypeError])
        \<and> (\<forall>obj. fetch uri = Fulfilled (Response (Fulfilled (JObject obj))) \<longrightarrow>
              result ?out = Fulfilled (case obj ''items'' of None \<Rightarrow> Undefined | Some v \<Rightarrow> v)
              \<and> warnings ?out = [])
        \<and> (\<forall>body items.
              fetch uri = Fulfilled (Response (Fulfilled body)) \<and> get_items body = Inr items \<longrightarrow>
              result ?out = Fulfilled items \<and> warnings ?out = [])
        \<and> (fetch uri = Pending \<or> fetch uri = Fulfilled (Response Pending) \<longrightarrow>
              result ?out = Pending \<and> warnings ?out = [])"
    by (auto simp add: catch_warn_not_Rejected split: option.splits)
  with uri out show "\<exists>uri out.
          encodedURI language = Inr uri
        \<and> fetchPopularRepos fetch language = Inr out
        \<and> requests out = [uri]
        \<and> (\<forall>e. result out \<noteq> Rejected e)
        \<and> (\<forall>e. fetch uri = Rejected e \<longrightarrow>
              result out = Fulfilled Null \<and> warnings out = [e])
        \<and> (\<forall>e. fetch uri = Fulfilled (Response (Rejected e)) \<longrightarrow>
              result out = Fulfilled Null \<and> warnings out = [e])
        \<and> (fetch uri = Fulfilled (Response (Fulfilled JNull)) \<longrightarrow>
              result out = Fulfilled Null \<and> warnings out = [TypeError])
        \<and> (\<forall>obj. fetch uri = Fulfilled (Response (Fulfilled (JObject obj))) \<longrightarrow>
              result out = Fulfilled (case obj ''items'' of None \<Rightarrow> Undefined | Some v \<Rightarrow> v)
              \<and> warnings out = [])
        \<and> (\<forall>body items.
              fetch uri = Fulfilled (Response (Fulfilled body)) \<and> get_items body = Inr items \<longrightarrow>
              result out = Fulfilled items \<and> warnings out = [])
        \<and> (fetch uri = Pending \<or> fetch uri = Fulfilled (Response Pending) \<longrightarrow>
              result out = Pending \<and> warnings out = [])"
    by blast
next
  assume "\<not> well_formed (language_term language)"
  then show "fetchPopularRepos fetch language = Inl URIError"
    by (intro fetchPopularRepos_throws encodedURI_ill_formed)
qed

lemma well_formed_all: "well_formed (language_term None)"
  unfolding language_term_def option.case
  by (rule well_formed_plain) (rule plain_ascii)

theorem fetchPopularRepos_never_rejects_witness:
  "well_formed (language_term None)
   \<and> map_sum id (\<lambda>out. (result out, warnings out))
        (fetchPopularRepos (\<lambda>u. Rejected FetchError :: repo list response promise) None)
     = Inr (Fulfilled Null, [FetchError])
   \<and> map_sum id (\<lambda>out. (result out, warnings out))
        (fetchPopularRepos
          (\<lambda>u. Fulfilled (Response (Rejected SyntaxError)) :: repo list response promise) None)
     = Inr (Fulfilled Null, [SyntaxError])
   \<and> map_sum id (\<lambda>out. (result out, warnings out))
        (fetchPopularRepos
          (\<lambda>u. Fulfilled (Response (Fulfilled JNull)) :: repo list response promise) None)
     = Inr (Fulfilled Null, [TypeError])
   \<and> map_sum id (\<lambda>out. (result out, warnings out))
        (fetchPopularRepos
          (\<lambda>u. Fulfilled (Response (Fulfilled (JObject [''items'' \<mapsto> Val []])))
             :: repo list response promise) None)
     = Inr (Fulfilled (Val []), [])
   \<and> \<not> well_formed (language_term (Some [0xD800]))
   \<and> fetchPopularRepos (\<lambda>u. Pending :: repo list response promise) (Some [0xD800])
     = Inl URIError"
proof -
  note wf = well_formed_all
  have a: "map_sum id (\<lambda>out. (result out, warnings out))
        (fetchPopularRepos (\<lambda>u. Rejected FetchError :: repo list response promise) None)
     = Inr (Fulfilled Null, [FetchError])"
    using fetchPopularRepos_never_rejects
      [of None "\<lambda>u. Rejected FetchError :: repo list response promise"] wf
    by auto
  have b: "map_sum id (\<lambda>out. (result out, warnings out))
        (fetchPopularRepos
          (\<lambda>u. Fulfilled (Response (Rejected SyntaxError)) :: repo list response promise) None)
     = Inr (Fulfilled Null, [SyntaxError])"
    using fetchPopularRepos_never_rejects
      [of None "\<lambda>u. Fulfilled (Response (Rejected SyntaxError)) :: repo list response promise"]
      wf
    by auto
  have c: "map_sum id (\<lambda>out. (result out, warnings out))
        (fetchPopularRepos
          (\<lambda>u. Fulfilled (Response (Fulfilled JNull)) :: repo list response promise) None)
     = Inr (Fulfilled Null, [TypeError])"
    using fetchPopularRepos_never_rejects
      [of None "\<lambda>u. Fulfilled (Response (Fulfilled JNull)) :: repo list response promise"] wf
    by auto
  have d: "map_sum id (\<lambda>out. (result out, warnings out))
        (fetchPopularRepos
          (\<lambda>u. Fulfilled (Response (Fulfilled (JObject [''items'' \<mapsto> Val []])))
             :: repo list response promise) None)
     = Inr (Fulfilled (Val []), [])"
    using fetchPopularRepos_never_rejects
      [of None "\<lambda>u. Fulfilled (Response (Fulfilled (JObject [''items'' \<mapsto> Val []])))
             :: repo list response promise"] wf
    by auto
  have nwf: "\<not> well_formed (language_term (Some [0xD800]))"
    by (simp add: language_term_def is_high_def is_low_def)
  have e: "fetchPopularRepos (\<lambda>u. Pending :: repo list response promise) (Some [0xD800])
     = Inl URIError"
    using fetchPopularRepos_never_rejects
      [of "Some [0xD800]" "\<lambda>u. Pending :: repo list response promise"] nwf
    by blast
  show ?thesis
    using wf a b c d nwf e by blast
qed

section \<open>The Grid view: properties\<close>

lemma content_entry:
  "content (entry r) =
     [S (name r), S (ascii ''@''), S (login (owner r)), N (stargazers_count r),
      S (ascii '' stars'')]"
  by (simp add: entry_def)

lemma links_entry: "links (entry r) = [(Some (PStr (html_url r)), [S (name r)])]"
  by (simp add: entry_def)

text \<open>
  C9.  In its Ready state, with a list of repository records, the Grid view renders a
  list with exactly one entry per record, in the order of the records; each entry
  displays the record's name as a link to its URL, its owner's login after \<open>@\<close>, and
  its star count before \<open>stars\<close>, each unchanged.
\<close>

theorem Grid_render_ready:
  "Grid_render \<lparr>repos = Val rs, loading = False\<rparr> =
     Inr (Element ''ul''
           [(''style'', PStyle [(''display'', CssStr ''flex''), (''flexWrap'', CssStr ''wrap'')])]
           (map entry rs))
   \<and> length (map entry rs) = length rs
   \<and> map content (map entry rs) =
       map (\<lambda>r. [S (name r), S (ascii ''@''), S (login (owner r)), N (stargazers_count r),
                  S (ascii '' stars'')]) rs
   \<and> map links (map entry rs) = map (\<lambda>r. [(Some (PStr (html_url r)), [S (name r)])]) rs"
  by (simp add: Grid_render_def content_entry links_entry)

lemma result_rejected:
  "fetchPopularRepos (\<lambda>u. Rejected e) language = Inr out \<Longrightarrow> result out = Fulfilled Null"
  by (cases "encodedURI language")
     (auto simp add: fetchPopularRepos_throws fetchPopularRepos_returns)

text \<open>
  C2 does not hold on the refetch path.  When the fetch fails the promise the loader
  returns is fulfilled with \<open>null\<close>; the callback of \<open>fetchRepos\<close> then stores \<open>null\<close> and
  clears \<open>loading\<close>, and the next \<open>render\<close> throws a \<open>TypeError\<close> on \<open>repos.map\<close>.  At mount
  the constructor keeps \<open>loading\<close> set for \<open>null\<close> and \<open>render\<close> returns the Loading
  heading.
\<close>

theorem Grid_render_after_failed_refetch:
  "(\<forall>out. fetchInitialData (\<lambda>u. Rejected e) lang = Inr out \<longrightarrow>
       result out = Fulfilled Null
       \<and> fetchRepos_settled st (result out) = st\<lparr>repos := Null, loading := False\<rparr>
       \<and> Grid_render (fetchRepos_settled st (result out)) = Inl TypeError)
   \<and> Grid_constructor True (w(slot \<mapsto> Null)) props =
       Inr (w(slot := None), \<lparr>repos = Null, loading = True\<rparr>)
   \<and> Grid_render \<lparr>repos = Null, loading = True\<rparr> =
       Inr (Element ''h1'' [] [Text (ascii ''LOADING'')])"
proof (intro conjI allI impI)
  fix out :: "data outcome"
  assume "fetchInitialData (\<lambda>u. Rejected e) lang = Inr out"
  then show null: "result out = Fulfilled Null"
    by (auto simp add: fetchInitialData_def Let_def dest: result_rejected)
  show "fetchRepos_settled st (result out) = st\<lparr>repos := Null, loading := False\<rparr>"
    by (simp add: null fetchRepos_then_def)
  show "Grid_render (fetchRepos_settled st (result out)) = Inl TypeError"
    by (simp add: null fetchRepos_then_def Grid_render_def)
next
  show "Grid_constructor True (w(slot \<mapsto> Null)) props =
       Inr (w(slot := None), \<lparr>repos = Null, loading = True\<rparr>)"
    by (simp add: Grid_constructor_def get_prop_def)
next
  show "Grid_render \<lparr>repos = Null, loading = True\<rparr> =
       Inr (Element ''h1'' [] [Text (ascii ''LOADING'')])"
    by (simp add: Grid_render_def)
qed

lemma encodedURI_rust:
  "encodedURI (Some (ascii ''rust'')) =
      Inr (ascii ''https://api.github.com/search/repositories?q=stars:%3E1+language:rust&sort=stars&order=desc&type=Repositories'')"
proof -
  have "encodeURI (language_term (Some (ascii ''rust''))) = Inr (ascii ''rust'')"
    unfolding language_term_def option.case
    by (rule encodeURI_ascii_unescaped) (simp add: uri_sets)
  from encodedURI_well_formed [OF this] show ?thesis
    by (simp add: ascii_def)
qed

lemma last_split_slash_rust: "last (split_slash (ascii ''rust'')) = ascii ''rust''"
  by (simp add: ascii_def)

theorem Grid_render_after_failed_refetch_witness:
  "fetchInitialData (\<lambda>u. Rejected FetchError :: repo list response promise)
     (Some (ascii ''rust''))
   = Inr \<lparr>requests = [ascii ''https://api.github.com/search/repositories?q=stars:%3E1+language:rust&sort=stars&order=desc&type=Repositories''],
          warnings = [FetchError], result = Fulfilled Null\<rparr>
   \<and> Grid_render (fetchRepos_settled \<lparr>repos = Val [], loading = True\<rparr> (Fulfilled Null))
     = Inl TypeError"
proof -
  let ?out = "\<lparr>requests = [ascii ''https://api.github.com/search/repositories?q=stars:%3E1+language:rust&sort=stars&order=desc&type=Repositories''],
          warnings = [FetchError], result = Fulfilled (Null :: data)\<rparr>"
  have call: "fetchInitialData (\<lambda>u. Rejected FetchError :: repo list response promise)
     (Some (ascii ''rust'')) = Inr ?out"
    unfolding fetchInitialData_eq last_split_slash_rust
    by (simp add: fetchPopularRepos_returns [OF encodedURI_rust])
  from Grid_render_after_failed_refetch
    [of FetchError "Some (ascii ''rust'')" "\<lparr>repos = Val [], loading = True\<rparr>"
        Map.empty "\<lparr>props_match = \<lparr>m_path = [], isExact = True, params = []\<rparr>,
                   staticContext = None, props_fetchInitialData = None\<rparr>"]
    call
  have "Grid_render (fetchRepos_settled \<lparr>repos = Val [], loading = True\<rparr> (result ?out))
     = Inl TypeError"
    by blast
  with call show ?thesis by simp
qed







lemma plain_slash: "plain 0x2F"
  by (simp add: plain_def is_high_def is_low_def)



lemma matchPath_javascript:
  "matchPath (ascii ''/popular/javascript'') (ascii ''/popular/:id'') None
     = Some \<lparr>m_path = ascii ''/popular/:id'', isExact = True,
             params = [(ascii ''id'', ascii ''javascript'')]\<rparr>"
  by (simp add: matchPath_def compilePath_def lower_def ascii_def)





section \<open>Routing, the slot and the two renders: properties\<close>

lemma switch_match_None: "switch_match p rs = None \<longleftrightarrow> find (matches p) rs = None"
  by (induction rs) (auto simp add: matches_def split: option.splits)

lemma switch_match_routes_None:
  "switch_match p (routes :: repo list route list) = None
   \<longleftrightarrow> (find_route p :: repo list route option) = None"
  by (simp add: switch_match_None find_route_def)

lemma matchPath_no_leading_slash:
  "p \<noteq> [] \<Longrightarrow> hd p \<noteq> 0x2F \<Longrightarrow> matchPath p pat ex = None"
  by (cases p) (auto simp add: matchPath_def split: list.splits)

lemma switch_match_req_url: "switch_match (ascii ''req.url'') routes = None"
  by (simp add: routes_def matchPath_no_leading_slash ascii_def)

lemma server_markup_eq:
  "server_markup nm d = Inr (Element ''div'' [] [Navbar (ascii ''req.url''), nm])"
  by (simp add: server_markup_def App_render_def switch_match_req_url)

lemma decodeURI_no_percent: "0x25 \<notin> set s \<Longrightarrow> decodeURI s = Inr s"
  by (induction s) (simp_all add: decode_head_def)

lemma decodeURI_escaped_p:
  "decodeURI (ascii ''/%70opular/javascript'') = Inr (ascii ''/popular/javascript'')"
proof -
  have head: "decode_head 0x25 (ascii ''70opular/javascript'')
      = Inr (ascii ''p'', ascii ''opular/javascript'')"
    by (simp add: decode_head_def hexval_def reservedURISet_def uriReserved_def ascii_def)
  have rest: "decodeURI (ascii ''opular/javascript'') = Inr (ascii ''opular/javascript'')"
    by (rule decodeURI_no_percent) (simp add: ascii_def)
  have "decodeURI (ascii ''%70opular/javascript'') = Inr (ascii ''popular/javascript'')"
    using head rest by (simp add: ascii_def)
  then show ?thesis by (simp add: ascii_def decode_head_def)
qed

lemma find_route_nonexistent:
  "(find_route (ascii ''/nonexistent'') :: repo list route option) = None"
  by (simp add: find_route_def routes_def matches_def matchPath_def compilePath_def lower_def
      ascii_def)

lemma find_route_popular_slash:
  "(find_route (ascii ''/popular/'') :: repo list route option) = None"
  by (simp add: find_route_def routes_def matches_def matchPath_def compilePath_def lower_def
      ascii_def)

lemma find_route_escaped:
  "(find_route (ascii ''/%70opular/javascript'') :: repo list route option) = None"
  by (simp add: find_route_def routes_def matches_def matchPath_def compilePath_def lower_def
      ascii_def)

lemma find_route_query:
  "find_route (ascii ''/popular/?x'') =
     Some (\<lparr>path = ascii ''/popular/:id'', exact = None, component = Grid,
            loader = Some fetchInitialData\<rparr> :: repo list route)"
  by (simp add: find_route_def routes_def matches_def matchPath_def compilePath_def lower_def
      ascii_def)

lemma switch_match_javascript:
  "switch_match (ascii ''/popular/javascript'') (routes :: repo list route list)
      = Some (\<lparr>path = ascii ''/popular/:id'', exact = None, component = Grid,
               loader = Some fetchInitialData\<rparr>,
          \<lparr>m_path = ascii ''/popular/:id'', isExact = True,
           params = [(ascii ''id'', ascii ''javascript'')]\<rparr>)"
proof -
  have "matchPath (ascii ''/popular/javascript'') (ascii ''/'') (Some (ascii ''true'')) = None"
    by (simp add: matchPath_def compilePath_def lower_def ascii_def)
  then show ?thesis
    by (simp add: routes_def matchPath_javascript)
qed

text \<open>
  C8 as stated, for every request path that matches no route descriptor, does not
  hold.  The server looks the route up with \<open>req.url\<close>, not with the path: for
  \<open>GET /popular/?x\<close> the path \<open>/popular/\<close> matches no descriptor, yet the lookup finds
  the Grid's route and the loader is called.  The browser matches the decoded pathname:
  \<open>/%70opular/javascript\<close> matches no descriptor as it is written, yet the browser
  mounts the Grid, which calls the loader.
\<close>

theorem unmatched_path_loader_called:
  "(find_route (ascii ''/popular/'') :: repo list route option) = None
   \<and> fst (app (\<lambda>r. False) (Text (ascii ''Not Found'')) (\<lambda>u. Pending)
            \<lparr>req_url = ascii ''/popular/?x'', req_path = ascii ''/popular/''\<rparr>)
       = Returned \<lparr>requests = [ascii ''https://api.github.com/search/repositories?q=stars:%3E1+language:&sort=stars&order=desc&type=Repositories''],
                   warnings = [], result = Pending\<rparr>
   \<and> (find_route (ascii ''/%70opular/javascript'') :: repo list route option) = None
   \<and> browser_entry (Text (ascii ''Not Found'')) Map.empty (ascii ''/%70opular/javascript'')
       = Inr (Map.empty,
              Element ''div'' []
                [Navbar (ascii ''/popular/javascript''),
                 Element ''h1'' [] [Text (ascii ''LOADING'')]],
              Some (\<lparr>props_match =
                       \<lparr>m_path = ascii ''/popular/:id'', isExact = True,
                        params = [(ascii ''id'', ascii ''javascript'')]\<rparr>,
                     staticContext = None,
                     props_fetchInitialData = Some fetchInitialData\<rparr>,
                    \<lparr>repos = Undefined, loading = True\<rparr>))
   \<and> didMount (\<lambda>u. Pending)
        (Some (\<lparr>props_match =
                  \<lparr>m_path = ascii ''/popular/:id'', isExact = True,
                   params = [(ascii ''id'', ascii ''javascript'')]\<rparr>,
                staticContext = None,
                props_fetchInitialData = Some fetchInitialData\<rparr>,
               \<lparr>repos = Undefined, loading = True\<rparr>))
       = Inr (Some (\<lparr>repos = Undefined, loading = True\<rparr>,
                    Some \<lparr>requests = [ascii ''https://api.github.com/search/repositories?q=stars:%3E1+language:javascript&sort=stars&order=desc&type=Repositories''],
                          warnings = [], result = Pending\<rparr>))"
proof -
  have last1: "last (split_slash (ascii ''/popular/'')) = []"
    by (simp add: ascii_def)
  have call1: "fetchInitialData (\<lambda>u. Pending :: repo list response promise)
        (Some (ascii ''/popular/''))
      = Inr \<lparr>requests = [ascii ''https://api.github.com/search/repositories?q=stars:%3E1+language:&sort=stars&order=desc&type=Repositories''],
             warnings = [], result = Pending\<rparr>"
    unfolding fetchInitialData_eq last1
    by (simp add: fetchPopularRepos_returns [OF encodedURI_empty])
  have server: "fst (app (\<lambda>r. False) (Text (ascii ''Not Found'')) (\<lambda>u. Pending)
            \<lparr>req_url = ascii ''/popular/?x'', req_path = ascii ''/popular/''\<rparr>)
       = Returned \<lparr>requests = [ascii ''https://api.github.com/search/repositories?q=stars:%3E1+language:&sort=stars&order=desc&type=Repositories''],
                   warnings = [], result = Pending\<rparr>"
    by (simp add: app_def server_get_def Let_def find_route_query call1)
  have browser: "browser_entry (Text (ascii ''Not Found'')) Map.empty
        (ascii ''/%70opular/javascript'')
       = Inr (Map.empty,
              Element ''div'' []
                [Navbar (ascii ''/popular/javascript''),
                 Element ''h1'' [] [Text (ascii ''LOADING'')]],
              Some (\<lparr>props_match =
                       \<lparr>m_path = ascii ''/popular/:id'', isExact = True,
                        params = [(ascii ''id'', ascii ''javascript'')]\<rparr>,
                     staticContext = None,
                     props_fetchInitialData = Some fetchInitialData\<rparr>,
                    \<lparr>repos = Undefined, loading = True\<rparr>))"
    by (simp add: browser_entry_def decodeURI_escaped_p App_render_def switch_match_javascript
        Grid_constructor_def Let_def get_prop_def Grid_render_def)
  have last2: "last (split_slash (ascii ''javascript'')) = ascii ''javascript''"
    by (simp add: ascii_def)
  have call2: "fetchInitialData (\<lambda>u. Pending :: repo list response promise)
        (Some (ascii ''javascript''))
      = Inr \<lparr>requests = [ascii ''https://api.github.com/search/repositories?q=stars:%3E1+language:javascript&sort=stars&order=desc&type=Repositories''],
             warnings = [], result = Pending\<rparr>"
    unfolding fetchInitialData_eq last2
    by (simp add: fetchPopularRepos_returns [OF encodedURI_javascript])
  have mount: "didMount (\<lambda>u. Pending)
        (Some (\<lparr>props_match =
                  \<lparr>m_path = ascii ''/popular/:id'', isExact = True,
                   params = [(ascii ''id'', ascii ''javascript'')]\<rparr>,
                staticContext = None,
                props_fetchInitialData = Some fetchInitialData\<rparr>,
               \<lparr>repos = Undefined, loading = True\<rparr>))
       = Inr (Some (\<lparr>repos = Undefined, loading = True\<rparr>,
                    Some \<lparr>requests = [ascii ''https://api.github.com/search/repositories?q=stars:%3E1+language:javascript&sort=stars&order=desc&type=Repositories''],
                          warnings = [], result = Pending\<rparr>))"
    by (simp add: didMount_def componentDidMount_def params_id_def fetchRepos_def called_def
        Let_def call2)
  from find_route_popular_slash server find_route_escaped browser mount
  show ?thesis by blast
qed

text \<open>
  C8 (as the code has it).  For a request that reaches the handler (the static
  middleware serves no file for it) and whose URL as received, query string included,
  matches no route descriptor, the route lookup finds no route, no loader is called and
  the document is sent with \<open>undefined\<close> as its data.  At a location pathname that
  matches no route descriptor the route switch of \<open>App\<close> falls through to the
  not-found view and constructs no Grid; in the browser that pathname is the decoded
  pathname of the address, and with no Grid mounted no loader is called.  A request the
  static middleware serves does not reach the handler.
\<close>

theorem unmatched_url_not_found:
  "((find_route (req_url req) :: repo list route option) = None \<and> \<not> static req \<longrightarrow>
      fst (app static nm fetch req) = NotCalled
      \<and> (\<exists>el. snd (app static nm fetch req)
                = Sent \<lparr>markup = el, initial_data = Undefined\<rparr>))
   \<and> ((find_route p :: repo list route option) = None \<longrightarrow>
        App_render b nm w p c d = Inr (w, Element ''div'' [] [Navbar p, nm], None))
   \<and> (decodeURI raw = Inr p' \<and> (find_route p' :: repo list route option) = None \<longrightarrow>
        browser_entry nm w raw = Inr (w, Element ''div'' [] [Navbar p', nm], None)
        \<and> didMount fetch None = Inr None)
   \<and> (static req \<longrightarrow> app static nm fetch req = (NotCalled, File))"
proof (intro conjI impI)
  assume h: "(find_route (req_url req) :: repo list route option) = None \<and> \<not> static req"
  then show "fst (app static nm fetch req) = NotCalled"
    by (simp add: app_def server_get_def Let_def)
  from h show "\<exists>el. snd (app static nm fetch req)
                = Sent \<lparr>markup = el, initial_data = Undefined\<rparr>"
    by (simp add: app_def server_get_def Let_def respond_def server_markup_eq)
next
  assume "(find_route p :: repo list route option) = None"
  then have "switch_match p (routes :: repo list route list) = None"
    by (simp add: switch_match_routes_None)
  then show "App_render b nm w p c d = Inr (w, Element ''div'' [] [Navbar p, nm], None)"
    by (simp add: App_render_def)
next
  assume h: "decodeURI raw = Inr p' \<and> (find_route p' :: repo list route option) = None"
  then have "switch_match p' (routes :: repo list route list) = None"
    by (simp add: switch_match_routes_None)
  with h show "browser_entry nm w raw = Inr (w, Element ''div'' [] [Navbar p', nm], None)"
    by (simp add: browser_entry_def App_render_def)
next
  show "didMount fetch None = Inr None"
    by (simp add: didMount_def)
next
  assume "static req"
  then show "app static nm fetch req = (NotCalled, File)"
    by (simp add: app_def)
qed

theorem unmatched_url_not_found_witness:
  "(find_route (ascii ''/nonexistent'') :: repo list route option) = None
   \<and> decodeURI (ascii ''/nonexistent'') = Inr (ascii ''/nonexistent'')
   \<and> fst (app (\<lambda>r. False) (Text (ascii ''Not Found'')) (\<lambda>u. Pending)
            \<lparr>req_url = ascii ''/nonexistent'', req_path = ascii ''/nonexistent''\<rparr>)
       = NotCalled
   \<and> App_render False (Text (ascii ''Not Found'')) Map.empty (ascii ''/nonexistent'')
        (Some Map.empty) Undefined
       = Inr (Map.empty,
              Element ''div'' [] [Navbar (ascii ''/nonexistent''), Text (ascii ''Not Found'')],
              None)
   \<and> browser_entry (Text (ascii ''Not Found'')) Map.empty (ascii ''/nonexistent'')
       = Inr (Map.empty,
              Element ''div'' [] [Navbar (ascii ''/nonexistent''), Text (ascii ''Not Found'')],
              None)"
proof -
  let ?req = "\<lparr>req_url = ascii ''/nonexistent'', req_path = ascii ''/nonexistent''\<rparr>"
  have h: "(find_route (req_url ?req) :: repo list route option) = None \<and> \<not> (\<lambda>r. False) ?req"
    by (simp add: find_route_nonexistent)
  have dec: "decodeURI (ascii ''/nonexistent'') = Inr (ascii ''/nonexistent'')"
    by (rule decodeURI_no_percent) (simp add: ascii_def)
  note t = unmatched_url_not_found
    [of ?req "\<lambda>r. False" "Text (ascii ''Not Found'')" "\<lambda>u. Pending" "ascii ''/nonexistent''"
        False Map.empty "Some Map.empty" Undefined "ascii ''/nonexistent''"
        "ascii ''/nonexistent''"]
  from t h have a: "fst (app (\<lambda>r. False) (Text (ascii ''Not Found'')) (\<lambda>u. Pending) ?req)
       = NotCalled"
    by blast
  from t find_route_nonexistent
  have b: "App_render False (Text (ascii ''Not Found'')) Map.empty (ascii ''/nonexistent'')
        (Some Map.empty) Undefined
       = Inr (Map.empty,
              Element ''div'' [] [Navbar (ascii ''/nonexistent''), Text (ascii ''Not Found'')],
              None)"
    by blast
  from t dec find_route_nonexistent
  have c: "browser_entry (Text (ascii ''Not Found'')) Map.empty (ascii ''/nonexistent'')
       = Inr (Map.empty,
              Element ''div'' [] [Navbar (ascii ''/nonexistent''), Text (ascii ''Not Found'')],
              None)"
    by blast
  from find_route_nonexistent dec a b c show ?thesis by blast
qed

lemma Grid_first_render_browser:
  "\<exists>el. Grid_render \<lparr>repos = get_prop w slot,
                      loading = (if truthy (get_prop w slot) then False else True)\<rparr>
        = Inr el"
  by (cases "get_prop w slot") (simp_all add: Grid_render_def)

lemma render_component_browser:
  "\<exists>el g. render_component True w props c
      = Inr (if c = Grid then w(slot := None) else w, el, g)"
proof (cases c)
  case Home
  then show ?thesis by simp
next
  case Grid
  from Grid_first_render_browser [of w] obtain el where
    "Grid_render \<lparr>repos = get_prop w slot,
                  loading = (if truthy (get_prop w slot) then False else True)\<rparr>
        = Inr el" by blast
  with Grid show ?thesis
    by (simp add: Grid_constructor_def Let_def)
qed

lemma App_render_browser_window:
  "map_sum id fst (App_render True nm w p c d) =
     Inr (case switch_match p (routes :: repo list route list) of
            None \<Rightarrow> w
          | Some (r, m) \<Rightarrow> if component r = Grid then w(slot := None) else w)"
proof (cases "switch_match p (routes :: repo list route list)")
  case None
  then show ?thesis by (simp add: App_render_def)
next
  case (Some rm)
  obtain r m where rm: "rm = (r, m)" by (cases rm)
  from render_component_browser
    [of w "\<lparr>props_match = m, staticContext = c, props_fetchInitialData = loader r\<rparr>"
        "component r"]
  obtain el g where "render_component True w
      \<lparr>props_match = m, staticContext = c, props_fetchInitialData = loader r\<rparr> (component r)
     = Inr (if component r = Grid then w(slot := None) else w, el, g)" by blast
  with Some rm show ?thesis
    by (simp add: App_render_def)
qed

lemma decodeURI_root: "decodeURI (ascii ''/'') = Inr (ascii ''/'')"
  by (rule decodeURI_no_percent) (simp add: ascii_def)

lemma switch_match_root:
  "switch_match (ascii ''/'') (routes :: repo list route list)
     = Some (\<lparr>path = ascii ''/'', exact = Some (ascii ''true''), component = Home,
              loader = None\<rparr>,
             \<lparr>m_path = ascii ''/'', isExact = True, params = []\<rparr>)"
  by (simp add: routes_def matchPath_def compilePath_def ascii_def)

text \<open>
  C6 as stated, that every page load deletes the slot after reading it, does not hold:
  a page load at \<open>/\<close> mounts no Grid, and the slot the browser entry has read is still
  there afterwards.
\<close>

theorem page_load_keeps_slot:
  "browser_entry (Text (ascii ''Not Found'')) [slot \<mapsto> Undefined] (ascii ''/'') =
     Inr ([slot \<mapsto> Undefined],
          Element ''div'' [] [Navbar (ascii ''/''), Home_render], None)
   \<and> [slot \<mapsto> (Undefined :: data)] slot \<noteq> None
   \<and> browser_entry (Text (ascii ''Not Found'')) [slot \<mapsto> Val []] (ascii ''/'') =
     Inr ([slot \<mapsto> Val []],
          Element ''div'' [] [Navbar (ascii ''/''), Home_render], None)
   \<and> [slot \<mapsto> (Val [] :: data)] slot = Some (Val [])"
  by (simp add: browser_entry_def decodeURI_root App_render_def switch_match_root)

text \<open>
  C6 (as the code has it).  The constructor of the Grid view, in the browser, reads the
  slot and deletes it: the window afterwards is the window before without the slot,
  every other global unchanged, and a later read of the slot gives \<open>undefined\<close>.  A page
  load deletes the slot exactly when the route switch, at the decoded pathname, selects
  the Grid view; on any other path the window is left as it was, and when the pathname
  cannot be decoded nothing is rendered.
\<close>

theorem Grid_constructor_consumes_slot:
  "Grid_constructor True w props =
     Inr (w(slot := None),
          \<lparr>repos = get_prop w slot, loading = (\<not> truthy (get_prop w slot))\<rparr>)
   \<and> (w(slot := None)) k = (if k = slot then None else w k)
   \<and> get_prop (w(slot := None)) slot = Undefined
   \<and> (case decodeURI raw of
        Inl e \<Rightarrow> browser_entry nm w raw = Inl URIError
      | Inr p \<Rightarrow>
          map_sum id fst (browser_entry nm w raw) =
            Inr (case switch_match p (routes :: repo list route list) of
                   None \<Rightarrow> w
                 | Some (r, m) \<Rightarrow> if component r = Grid then w(slot := None) else w))"
  by (simp add: browser_entry_def App_render_browser_window Grid_constructor_def Let_def
      get_prop_def split: sum.splits)

lemma Navbar_differs:
  "Navbar (ascii ''req.url'') \<noteq> Navbar (ascii ''/popular/javascript'')"
proof -
  have a: "matchPath (ascii ''req.url'') (ascii ''/popular/javascript'') None = None"
    by (rule matchPath_no_leading_slash) (simp_all add: ascii_def)
  have b: "matchPath (ascii ''/popular/javascript'') (ascii ''/popular/javascript'') None \<noteq> None"
    by (simp add: matchPath_def compilePath_def lower_def ascii_def)
  have "NavLink (ascii ''req.url'') (ascii ''/popular/javascript'') (ascii ''JavaScript'')
      \<noteq> NavLink (ascii ''/popular/javascript'') (ascii ''/popular/javascript'')
          (ascii ''JavaScript'')"
    using a b by (simp add: NavLink_def)
  moreover have "ascii ''/popular/'' @ ascii ''javascript'' = ascii ''/popular/javascript''"
    by (simp add: ascii_def)
  ultimately show ?thesis
    by (simp add: Navbar_def languages_def)
qed

text \<open>
  C1 does not hold.  The server renders under a router whose location is the string
  \<open>req.url\<close> itself and whose context is empty, so its markup is the navigation bar with
  no active link and the not-found view, whatever the path and the data.  For
  \<open>/popular/javascript\<close> with one repository the browser's first render is the navigation
  bar with the JavaScript link active and the Grid's list: the two differ.
\<close>

theorem server_markup_mismatch:
  "server_markup nm d = Inr (Element ''div'' [] [Navbar (ascii ''req.url''), nm])
   \<and> snd (server_get nm
            (\<lambda>u. Fulfilled (Response (Fulfilled (JObject [''items'' \<mapsto>
                Val [\<lparr>name = ascii ''react'', owner = \<lparr>login = ascii ''facebook''\<rparr>,
                      stargazers_count = 1,
                      html_url = ascii ''https://github.com/facebook/react''\<rparr>]]))))
            \<lparr>req_url = ascii ''/popular/javascript'',
             req_path = ascii ''/popular/javascript''\<rparr>)
       = Sent \<lparr>markup = Element ''div'' [] [Navbar (ascii ''req.url''), nm],
               initial_data =
                 Val [\<lparr>name = ascii ''react'', owner = \<lparr>login = ascii ''facebook''\<rparr>,
                       stargazers_count = 1,
                       html_url = ascii ''https://github.com/facebook/react''\<rparr>]\<rparr>
   \<and> browser_entry nm
          [slot \<mapsto> Val [\<lparr>name = ascii ''react'', owner = \<lparr>login = ascii ''facebook''\<rparr>,
                           stargazers_count = 1,
                           html_url = ascii ''https://github.com/facebook/react''\<rparr>]]
          (ascii ''/popular/javascript'')
       = Inr (Map.empty,
              Element ''div'' []
                [Navbar (ascii ''/popular/javascript''),
                 Element ''ul''
                   [(''style'', PStyle [(''display'', CssStr ''flex''),
                                       (''flexWrap'', CssStr ''wrap'')])]
                   [entry \<lparr>name = ascii ''react'', owner = \<lparr>login = ascii ''facebook''\<rparr>,
                           stargazers_count = 1,
                           html_url = ascii ''https://github.com/facebook/react''\<rparr>]],
              Some (\<lparr>props_match =
                       \<lparr>m_path = ascii ''/popular/:id'', isExact = True,
                        params = [(ascii ''id'', ascii ''javascript'')]\<rparr>,
                     staticContext = None,
                     props_fetchInitialData = Some fetchInitialData\<rparr>,
                    \<lparr>repos =
                       Val [\<lparr>name = ascii ''react'', owner = \<lparr>login = ascii ''facebook''\<rparr>,
                             stargazers_count = 1,
                             html_url = ascii ''https://github.com/facebook/react''\<rparr>],
                     loading = False\<rparr>))
   \<and> Element ''div'' [] [Navbar (ascii ''req.url''), nm]
       \<noteq> Element ''div'' []
            [Navbar (ascii ''/popular/javascript''),
             Element ''ul''
               [(''style'', PStyle [(''display'', CssStr ''flex''),
                                   (''flexWrap'', CssStr ''wrap'')])]
               [entry \<lparr>name = ascii ''react'', owner = \<lparr>login = ascii ''facebook''\<rparr>,
                       stargazers_count = 1,
                       html_url = ascii ''https://github.com/facebook/react''\<rparr>]]"
proof -
  let ?r = "\<lparr>name = ascii ''react'', owner = \<lparr>login = ascii ''facebook''\<rparr>,
             stargazers_count = 1, html_url = ascii ''https://github.com/facebook/react''\<rparr>"
  let ?fetch = "\<lambda>u::jsstring. Fulfilled (Response (Fulfilled (JObject [''items'' \<mapsto> Val [?r]])))"
  let ?grid = "\<lparr>path = ascii ''/popular/:id'', exact = None, component = Grid,
                 loader = Some fetchInitialData\<rparr> :: repo list route"
  have route: "find_route (ascii ''/popular/javascript'') = Some ?grid"
    using switch_match_javascript
    by (simp add: find_route_def routes_def matches_def matchPath_javascript
        split: option.splits)
  have last: "last (split_slash (ascii ''/popular/javascript'')) = ascii ''javascript''"
    by (simp add: ascii_def)
  have call: "fetchInitialData ?fetch (Some (ascii ''/popular/javascript''))
      = Inr \<lparr>requests = [ascii ''https://api.github.com/search/repositories?q=stars:%3E1+language:javascript&sort=stars&order=desc&type=Repositories''],
             warnings = [], result = Fulfilled (Val [?r])\<rparr>"
    unfolding fetchInitialData_eq last
    by (simp add: fetchPopularRepos_returns [OF encodedURI_javascript])
  have server: "snd (server_get nm ?fetch
            \<lparr>req_url = ascii ''/popular/javascript'',
             req_path = ascii ''/popular/javascript''\<rparr>)
       = Sent \<lparr>markup = Element ''div'' [] [Navbar (ascii ''req.url''), nm],
               initial_data = Val [?r]\<rparr>"
    by (simp add: server_get_def Let_def route call respond_def server_markup_eq)
  have dec: "decodeURI (ascii ''/popular/javascript'') = Inr (ascii ''/popular/javascript'')"
    by (rule decodeURI_no_percent) (simp add: ascii_def)
  have browser: "browser_entry nm [slot \<mapsto> Val [?r]] (ascii ''/popular/javascript'')
       = Inr (Map.empty,
              Element ''div'' []
                [Navbar (ascii ''/popular/javascript''),
                 Element ''ul''
                   [(''style'', PStyle [(''display'', CssStr ''flex''),
                                       (''flexWrap'', CssStr ''wrap'')])]
                   [entry ?r]],
              Some (\<lparr>props_match =
                       \<lparr>m_path = ascii ''/popular/:id'', isExact = True,
                        params = [(ascii ''id'', ascii ''javascript'')]\<rparr>,
                     staticContext = None,
                     props_fetchInitialData = Some fetchInitialData\<rparr>,
                    \<lparr>repos = Val [?r], loading = False\<rparr>))"
    by (simp add: browser_entry_def dec App_render_def switch_match_javascript
        Grid_constructor_def Let_def get_prop_def Grid_render_def)
  show ?thesis
    using server browser Navbar_differs by (simp add: server_markup_eq)
qed

section \<open>\<open>encodeURI\<close> and \<open>decodeURI\<close> on examples\<close>

lemma continuation_2: "continuation 2 s = continuation (Suc (Suc 0)) s"
  by (simp only: numeral_2_eq_2)

lemma continuation_3: "continuation 3 s = continuation (Suc (Suc (Suc 0))) s"
  by (simp only: numeral_3_eq_3)

lemmas decode_defs = decode_head_def hexval_def reservedURISet_def uriReserved_def ascii_def
  utf8_length_def units_def continuation_2 continuation_3

lemmas encode_defs = ascii_def unescapedURISet_def uri_sets is_low_def is_high_def escapes_def
  utf8_def percent_def hexDigits_def pair_value_def

lemma encodeURI_space: "encodeURI (ascii ''a b'') = Inr (ascii ''a%20b'')"
  by (simp add: encode_defs)

lemma encodeURI_euro: "encodeURI [0x20AC] = Inr (ascii ''%E2%82%AC'')"
  by (simp add: encode_defs)

lemma encodeURI_pair: "encodeURI [0xD83D, 0xDE00] = Inr (ascii ''%F0%9F%98%80'')"
  by (simp add: encode_defs)

lemma encodeURI_lone_low: "encodeURI [0x61, 0xDE00] = Inl URIError"
  by (simp add: encode_defs)

lemma decodeURI_euro: "decodeURI (ascii ''%E2%82%AC'') = Inr [0x20AC]"
  by (simp add: decode_defs)

lemma decodeURI_pair: "decodeURI (ascii ''%F0%9F%98%80'') = Inr [0xD83D, 0xDE00]"
  by (simp add: decode_defs)

lemma decodeURI_reserved: "decodeURI (ascii ''%2F%41'') = Inr (ascii ''%2FA'')"
  by (simp add: decode_defs)

lemma decodeURI_truncated: "decodeURI (ascii ''%4'') = Inl URIError"
  by (simp add: decode_defs)

lemma decodeURI_overlong: "decodeURI (ascii ''%C0%80'') = Inl URIError"
  by (simp add: decode_defs)

end
